theory Spec2Isabelle
  imports Complex_Main "HOL-Library.AList"
begin

section \<open>Python values, errors and slotted objects\<close>

text \<open>
  The two modules of \<^verbatim>\<open>hops/homps\<close> are embedded: \<^verbatim>\<open>tensormethod_parameters.py\<close>
  (the integration modes, \<^verbatim>\<open>generate_parameters\<close>, \<^verbatim>\<open>positivity_test\<close>, the three
  parameter classes and the composite \<^verbatim>\<open>HIParamsWTensors\<close>) and \<^verbatim>\<open>operators.py\<close>.

  A Python float is a finite number, an infinity or NaN; only its comparison with zero is
  used by the code. Finite floats are read as real numbers. A \<^verbatim>\<open>bool\<close> is an instance of
  \<^verbatim>\<open>int\<close> and behaves as the integer 0 or 1 everywhere in this code, so it is
  represented by \<open>PInt\<close>.
\<close>

datatype pyfloat = Finite real | PosInf | NegInf | NaN

datatype pyval = PInt int | PFloat pyfloat | PStr string | PNone

text \<open>
  The exceptions the code can raise. A \<^verbatim>\<open>ValueError\<close>, a \<^verbatim>\<open>NotImplementedError\<close> and an
  \<^verbatim>\<open>AttributeError\<close> carry their message (for \<^verbatim>\<open>AttributeError\<close>: the attribute's
  name); a \<^verbatim>\<open>TypeError\<close> carries what the interpreter complains about and a
  \<^verbatim>\<open>SyntaxError\<close> the line it is reported at, since the wording of their messages depends
  on the interpreter's version. \<open>RaisedByArgument\<close> stands for an exception that a method
  of an argument raises (the method's name is given), whatever its class.
\<close>

datatype type_error =
    UnexpectedKeyword string
  | MissingArguments "string list"
  | Unorderable
  | Unhashable

datatype error =
    ValueError string
  | NotImplementedError string
  | TypeError type_error
  | BeartypeCallHintParamViolation string
  | AttributeError string
  | IndexError
  | SyntaxError nat
  | RaisedByArgument string

text \<open>
  The spec's three kinds of failure: invalid-argument (\<^verbatim>\<open>ValueError\<close>), not-implemented,
  and type/argument-mismatch (a call that does not fit the signature: the interpreter's
  \<^verbatim>\<open>TypeError\<close>, or the violation that the \<^verbatim>\<open>@beartype\<close> wrapper raises).
\<close>

fun is_invalid_argument :: "error \<Rightarrow> bool" where
  "is_invalid_argument (ValueError _) = True"
| "is_invalid_argument _ = False"

fun is_not_implemented :: "error \<Rightarrow> bool" where
  "is_not_implemented (NotImplementedError _) = True"
| "is_not_implemented _ = False"

fun is_type_mismatch :: "error \<Rightarrow> bool" where
  "is_type_mismatch (TypeError _) = True"
| "is_type_mismatch (BeartypeCallHintParamViolation _) = True"
| "is_type_mismatch _ = False"

datatype MPSIntegrationMode = TDVP1SITE | TDVP2SITE | TEBD | RUNGEKUTTA

text \<open>
  \<^verbatim>\<open>generate_parameters\<close> is not type-checked, so its \<^verbatim>\<open>mode\<close> can be any object. The code
  tests \<^verbatim>\<open>mode == member\<close> for the members in turn and, when no test holds, formats the
  object into a message. An object that is no member is represented by what these
  operations do on it: for each member, the outcome of the test \<^verbatim>\<open>mode == member\<close> (the
  object's own \<^verbatim>\<open>__eq__\<close> is asked first; an object with the default equality, such as a
  string or a number, answers \<open>False\<close> for every member), and the outcome of formatting it
  (the text of \<^verbatim>\<open>str()\<close>, for an object that does not define its own formatting). Either
  can raise. A member equals itself only, and is printed as the class and its name.
\<close>

datatype mode_arg =
    Member MPSIntegrationMode
  | NonMember "MPSIntegrationMode \<Rightarrow> error + bool" "error + string"

fun member_name :: "MPSIntegrationMode \<Rightarrow> string" where
  "member_name TDVP1SITE = ''TDVP1SITE''"
| "member_name TDVP2SITE = ''TDVP2SITE''"
| "member_name TEBD = ''TEBD''"
| "member_name RUNGEKUTTA = ''RUNGEKUTTA''"

fun mode_equals :: "mode_arg \<Rightarrow> MPSIntegrationMode \<Rightarrow> error + bool" where
  "mode_equals (Member m) t = Inr (m = t)"
| "mode_equals (NonMember eq fmt) t = eq t"

fun mode_format :: "mode_arg \<Rightarrow> error + string" where
  "mode_format (Member m) = Inr (''MPSIntegrationMode.'' @ member_name m)"
| "mode_format (NonMember eq fmt) = fmt"

datatype pycls = TDVP1SiteParameters_cls | TDVP2SiteParameters_cls | TEBDParameters_cls

record pyobj =
  obj_class :: pycls
  obj_slots :: "(string \<times> pyval) list"

text \<open>The \<^verbatim>\<open>__slots__\<close> line of each class.\<close>

fun own_slots :: "pycls \<Rightarrow> string list" where
  "own_slots TDVP1SiteParameters_cls = [''numiter_lanczos'', ''max_bond_dimension'']"
| "own_slots TDVP2SiteParameters_cls =
     [''numiter_lanczos'', ''max_bond_dimension'', ''relative_svd_tolerance'']"
| "own_slots TEBDParameters_cls = [''max_bond_dimension'', ''svd_relative_tolerance'']"

text \<open>
  Modelled from the spec: the base class \<^verbatim>\<open>bf.ABCParameter\<close> (package binfootprint) is not
  under src/. Following the spec (``fixed attribute set, no dynamic attributes''), it is a
  slotted class, so that an instance has no \<^verbatim>\<open>__dict__\<close>; the slots it declares itself are
  the parameter \<open>bs\<close> of everything below.

  \<^verbatim>\<open>self.name = v\<close> on an instance of a slotted class: the name must be a slot of the class
  or of a base class, otherwise \<^verbatim>\<open>AttributeError\<close>.
\<close>

definition new_object :: "pycls \<Rightarrow> pyobj" where
  "new_object c = \<lparr>obj_class = c, obj_slots = []\<rparr>"

definition py_setattr :: "string list \<Rightarrow> pyobj \<Rightarrow> string \<Rightarrow> pyval \<Rightarrow> error + pyobj" where
  "py_setattr bs self name v =
     (if name \<in> set (bs @ own_slots (obj_class self))
      then Inr (self\<lparr>obj_slots := AList.update name v (obj_slots self)\<rparr>)
      else Inl (AttributeError name))"

section \<open>positivity test and the call protocol\<close>

fun float_le_zero :: "pyfloat \<Rightarrow> bool" where
  "float_le_zero (Finite r) = (r \<le> 0)"
| "float_le_zero NegInf = True"
| "float_le_zero PosInf = False"
| "float_le_zero NaN = False"

fun float_gt_zero :: "pyfloat \<Rightarrow> bool" where
  "float_gt_zero (Finite r) = (0 < r)"
| "float_gt_zero PosInf = True"
| "float_gt_zero NegInf = False"
| "float_gt_zero NaN = False"

text \<open>\<^verbatim>\<open>value <= 0\<close> and \<^verbatim>\<open>value > 0\<close>; a string or \<^verbatim>\<open>None\<close> cannot be ordered with an int.\<close>

fun py_le_zero :: "pyval \<Rightarrow> error + bool" where
  "py_le_zero (PInt i) = Inr (i \<le> 0)"
| "py_le_zero (PFloat f) = Inr (float_le_zero f)"
| "py_le_zero (PStr s) = Inl (TypeError Unorderable)"
| "py_le_zero PNone = Inl (TypeError Unorderable)"

fun py_gt_zero :: "pyval \<Rightarrow> bool" where
  "py_gt_zero (PInt i) = (0 < i)"
| "py_gt_zero (PFloat f) = float_gt_zero f"
| "py_gt_zero (PStr s) = False"
| "py_gt_zero PNone = False"

definition positivity_test :: "pyval \<Rightarrow> string \<Rightarrow> error + unit" where
  "positivity_test val custom_name =
     (case py_le_zero val of
        Inl e \<Rightarrow> Inl e
      | Inr b \<Rightarrow> if b then Inl (ValueError (custom_name @ '' must be positive!''))
                 else Inr ())"

datatype pytype = IntT | FloatT

fun isinstance :: "pyval \<Rightarrow> pytype \<Rightarrow> bool" where
  "isinstance (PInt i) IntT = True"
| "isinstance (PFloat f) FloatT = True"
| "isinstance v t = False"

text \<open>
  A class is called with keyword arguments only (\<^verbatim>\<open>generate_parameters\<close> forwards
  \<^verbatim>\<open>**kwargs\<close>): an association list whose keys are distinct, as those of a dict are.
  The wrapper that \<^verbatim>\<open>@beartype\<close> puts around \<^verbatim>\<open>__init__\<close> first checks, in the order of
  the signature, the type of every parameter that was passed, and then calls
  \<^verbatim>\<open>__init__\<close>; there the interpreter refuses a keyword that is no parameter, and then
  the parameters that were not passed.
\<close>

fun beartype :: "(string \<times> pytype) list \<Rightarrow> (string \<times> pyval) list \<Rightarrow> error option" where
  "beartype [] kwargs = None"
| "beartype ((n, t) # sig) kwargs =
     (case map_of kwargs n of
        None \<Rightarrow> beartype sig kwargs
      | Some v \<Rightarrow> if isinstance v t then beartype sig kwargs
                  else Some (BeartypeCallHintParamViolation n))"

definition unexpected_keywords :: "string list \<Rightarrow> (string \<times> pyval) list \<Rightarrow> string list" where
  "unexpected_keywords names kwargs = filter (\<lambda>k. k \<notin> set names) (map fst kwargs)"

definition missing_arguments :: "string list \<Rightarrow> (string \<times> pyval) list \<Rightarrow> string list" where
  "missing_arguments names kwargs = filter (\<lambda>n. map_of kwargs n = None) names"

definition bind_arguments ::
  "(string \<times> pytype) list \<Rightarrow> (string \<times> pyval) list \<Rightarrow> error + unit" where
  "bind_arguments sig kwargs =
     (case beartype sig kwargs of
        Some e \<Rightarrow> Inl e
      | None \<Rightarrow>
         (case unexpected_keywords (map fst sig) kwargs of
            k # ks \<Rightarrow> Inl (TypeError (UnexpectedKeyword k))
          | [] \<Rightarrow>
             (case missing_arguments (map fst sig) kwargs of
                [] \<Rightarrow> Inr ()
              | m # ms \<Rightarrow> Inl (TypeError (MissingArguments (m # ms))))))"

fun bind_err :: "error + 'a \<Rightarrow> ('a \<Rightarrow> error + 'b) \<Rightarrow> error + 'b" where
  "bind_err (Inl e) f = Inl e"
| "bind_err (Inr x) f = f x"

text \<open>The argument bound to a parameter; \<^verbatim>\<open>None\<close> never arises after \<open>bind_arguments\<close>.\<close>

definition argument :: "(string \<times> pyval) list \<Rightarrow> string \<Rightarrow> pyval" where
  "argument kwargs n = (case map_of kwargs n of Some v \<Rightarrow> v | None \<Rightarrow> PNone)"

section \<open>The parameter classes\<close>

definition TDVP1SiteParameters_sig :: "(string \<times> pytype) list" where
  "TDVP1SiteParameters_sig = [(''numiter_lanczos'', IntT), (''max_bond_dimension'', IntT)]"

definition TDVP1SiteParameters_init ::
  "string list \<Rightarrow> pyobj \<Rightarrow> pyval \<Rightarrow> pyval \<Rightarrow> error + pyobj" where
  "TDVP1SiteParameters_init bs self numiter_lanczos max_bond_dimension =
     bind_err (positivity_test numiter_lanczos ''number of Lanczos iterations'') (\<lambda>_.
     bind_err (positivity_test max_bond_dimension ''maximum bond dimension'') (\<lambda>_.
     bind_err (py_setattr bs self ''numiter_lanczos'' numiter_lanczos) (\<lambda>self.
     py_setattr bs self ''max_bond_dimension'' max_bond_dimension)))"

definition TDVP1SiteParameters :: "string list \<Rightarrow> (string \<times> pyval) list \<Rightarrow> error + pyobj" where
  "TDVP1SiteParameters bs kwargs =
     bind_err (bind_arguments TDVP1SiteParameters_sig kwargs) (\<lambda>_.
       TDVP1SiteParameters_init bs (new_object TDVP1SiteParameters_cls)
         (argument kwargs ''numiter_lanczos'') (argument kwargs ''max_bond_dimension''))"

definition TDVP2SiteParameters_sig :: "(string \<times> pytype) list" where
  "TDVP2SiteParameters_sig =
     [(''numiter_lanczos'', IntT), (''max_bond_dimension'', IntT),
      (''relative_svd_tolerance'', FloatT)]"

definition TDVP2SiteParameters_init ::
  "string list \<Rightarrow> pyobj \<Rightarrow> pyval \<Rightarrow> pyval \<Rightarrow> pyval \<Rightarrow> error + pyobj" where
  "TDVP2SiteParameters_init bs self numiter_lanczos max_bond_dimension relative_svd_tolerance =
     bind_err (positivity_test numiter_lanczos ''number of Lanczos iterations'') (\<lambda>_.
     bind_err (positivity_test max_bond_dimension ''maximum bond dimension'') (\<lambda>_.
     bind_err (positivity_test relative_svd_tolerance ''relative SVD tolerance'') (\<lambda>_.
     bind_err (py_setattr bs self ''numiter_lanczos'' numiter_lanczos) (\<lambda>self.
     bind_err (py_setattr bs self ''max_bond_dimension'' max_bond_dimension) (\<lambda>self.
     py_setattr bs self ''relative_svd_tolerance'' relative_svd_tolerance)))))"

definition TDVP2SiteParameters :: "string list \<Rightarrow> (string \<times> pyval) list \<Rightarrow> error + pyobj" where
  "TDVP2SiteParameters bs kwargs =
     bind_err (bind_arguments TDVP2SiteParameters_sig kwargs) (\<lambda>_.
       TDVP2SiteParameters_init bs (new_object TDVP2SiteParameters_cls)
         (argument kwargs ''numiter_lanczos'') (argument kwargs ''max_bond_dimension'')
         (argument kwargs ''relative_svd_tolerance''))"

definition TEBDParameters_sig :: "(string \<times> pytype) list" where
  "TEBDParameters_sig = [(''max_bond_dimension'', IntT), (''svd_relative_tolerance'', FloatT)]"

definition TEBDParameters_init ::
  "string list \<Rightarrow> pyobj \<Rightarrow> pyval \<Rightarrow> pyval \<Rightarrow> error + pyobj" where
  "TEBDParameters_init bs self max_bond_dimension svd_relative_tolerance =
     bind_err (positivity_test max_bond_dimension ''maximum bond dimension'') (\<lambda>_.
     bind_err (positivity_test svd_relative_tolerance ''SVD relative tolerance'') (\<lambda>_.
     bind_err (py_setattr bs self ''max_bond_dimension'' max_bond_dimension) (\<lambda>self.
     py_setattr bs self ''svd_relative_tolerance'' svd_relative_tolerance)))"

definition TEBDParameters :: "string list \<Rightarrow> (string \<times> pyval) list \<Rightarrow> error + pyobj" where
  "TEBDParameters bs kwargs =
     bind_err (bind_arguments TEBDParameters_sig kwargs) (\<lambda>_.
       TEBDParameters_init bs (new_object TEBDParameters_cls)
         (argument kwargs ''max_bond_dimension'') (argument kwargs ''svd_relative_tolerance''))"

section \<open>generate parameters\<close>

definition generate_parameters ::
  "string list \<Rightarrow> mode_arg \<Rightarrow> (string \<times> pyval) list \<Rightarrow> error + pyobj" where
  "generate_parameters bs mode kwargs =
     bind_err (mode_equals mode TDVP1SITE) (\<lambda>is_tdvp1.
       if is_tdvp1 then TDVP1SiteParameters bs kwargs
       else bind_err (mode_equals mode TDVP2SITE) (\<lambda>is_tdvp2.
         if is_tdvp2 then TDVP2SiteParameters bs kwargs
         else bind_err (mode_equals mode TEBD) (\<lambda>is_tebd.
           if is_tebd then TEBDParameters bs kwargs
           else bind_err (mode_equals mode RUNGEKUTTA) (\<lambda>is_rk.
             if is_rk
             then Inl (NotImplementedError ''Runge-Kutta integration is not yet implemented.'')
             else bind_err (mode_format mode) (\<lambda>s.
               Inl (ValueError (''Invalid mode '' @ s @ ''.'')))))))"

section \<open>Equality and hashing of the parameter records\<close>

text \<open>
  Modelled from the spec: \<^verbatim>\<open>__eq__\<close> and \<^verbatim>\<open>__hash__\<close> of the three classes are
  inherited from \<^verbatim>\<open>bf.ABCParameter\<close>, which is not under src/ (the classes define
  neither). The spec: ``Two parameter objects with identical field values must compare
  equal and hash equal (value semantics)'' and ``records with any differing field are
  unequal''. The key of an object is its class and the values of its declared slots, in
  the order of \<^verbatim>\<open>__slots__\<close>; two objects are equal when their keys are, and the hash is
  a function \<open>h\<close> of the key.
\<close>

definition ABCParameter_key :: "pyobj \<Rightarrow> pycls \<times> pyval option list" where
  "ABCParameter_key self =
     (obj_class self, map (map_of (obj_slots self)) (own_slots (obj_class self)))"

definition ABCParameter_eq :: "pyobj \<Rightarrow> pyobj \<Rightarrow> bool" where
  "ABCParameter_eq self other = (ABCParameter_key self = ABCParameter_key other)"

definition ABCParameter_hash :: "(pycls \<times> pyval option list \<Rightarrow> int) \<Rightarrow> pyobj \<Rightarrow> int" where
  "ABCParameter_hash h self = h (ABCParameter_key self)"

section \<open>The composite HIParamsWTensors\<close>

text \<open>
  Modelled from the spec: the base class \<^verbatim>\<open>HIParams\<close>
  (\<^verbatim>\<open>hops/core/hierarchy_parameters.py\<close>) is not under src/. Following the spec (``a base
  hierarchy-parameter container'', ``external collaborator, opaque here''), it is a
  dataclass whose fields are an opaque payload of type \<open>'b\<close>; the checks made on that
  payload at construction are the parameter \<open>base_check\<close>, and the equality of two
  payloads is the parameter \<open>base_eq\<close>.

  \<^verbatim>\<open>HIParamsWTensors\<close> adds the field \<^verbatim>\<open>TensP: bf.ABCParameter\<close>. The class is decorated
  with \<^verbatim>\<open>@dataclass\<close> and then \<^verbatim>\<open>@beartype\<close>, so that the generated \<^verbatim>\<open>__init__\<close> takes
  the base fields and then \<^verbatim>\<open>TensP\<close>, and its arguments are type-checked in that order.
  An argument is an instance of \<^verbatim>\<open>bf.ABCParameter\<close> exactly when it is an object of one of
  the three parameter classes.
\<close>

datatype pyarg = Value pyval | Object pyobj

record 'b HIParamsWTensors =
  HIParams_fields :: 'b
  TensP :: pyobj

definition HIParamsWTensors_slots :: "string list" where
  "HIParamsWTensors_slots = [''TensP'']"

definition HIParamsWTensors_init ::
  "('b \<Rightarrow> error option) \<Rightarrow> 'b \<Rightarrow> pyarg \<Rightarrow> error + 'b HIParamsWTensors" where
  "HIParamsWTensors_init base_check base tensp =
     (case base_check base of
        Some e \<Rightarrow> Inl e
      | None \<Rightarrow>
         (case tensp of
            Object p \<Rightarrow> Inr \<lparr>HIParams_fields = base, TensP = p\<rparr>
          | Value v \<Rightarrow> Inl (BeartypeCallHintParamViolation ''TensP'')))"

text \<open>
  \<^verbatim>\<open>@dataclass\<close> decides what to do with \<^verbatim>\<open>__hash__\<close> from its options
  \<^verbatim>\<open>unsafe_hash\<close>, \<^verbatim>\<open>eq\<close> and \<^verbatim>\<open>frozen\<close> and from whether the class body defines
  \<^verbatim>\<open>__hash__\<close> itself (the table \<^verbatim>\<open>_hash_action\<close> of the standard library): leave the
  inherited method, set \<^verbatim>\<open>__hash__ = None\<close>, add a hash of the fields, or refuse the class.
\<close>

datatype hash_action = keep_inherited | hash_set_none | hash_add | hash_exception

fun dataclass_hash_action :: "bool \<Rightarrow> bool \<Rightarrow> bool \<Rightarrow> bool \<Rightarrow> hash_action" where
  "dataclass_hash_action False False frozen explicit = keep_inherited"
| "dataclass_hash_action False True False False = hash_set_none"
| "dataclass_hash_action False True False True = keep_inherited"
| "dataclass_hash_action False True True False = hash_add"
| "dataclass_hash_action False True True True = keep_inherited"
| "dataclass_hash_action True eq frozen False = hash_add"
| "dataclass_hash_action True eq frozen True = hash_exception"

text \<open>
  The generated \<^verbatim>\<open>__eq__\<close> compares the tuples of all fields: the base fields and
  \<^verbatim>\<open>TensP\<close>, the latter with the equality of the parameter records.
\<close>

definition HIParamsWTensors_eq ::
  "('b \<Rightarrow> 'b \<Rightarrow> bool) \<Rightarrow> 'b HIParamsWTensors \<Rightarrow> 'b HIParamsWTensors \<Rightarrow> bool" where
  "HIParamsWTensors_eq base_eq self other =
     (base_eq (HIParams_fields self) (HIParams_fields other)
      \<and> ABCParameter_eq (TensP self) (TensP other))"

text \<open>
  \<^verbatim>\<open>hash(self)\<close>. The decorator is applied with its default options (\<^verbatim>\<open>unsafe_hash=False\<close>,
  \<^verbatim>\<open>eq=True\<close>, \<^verbatim>\<open>frozen=False\<close>) and the class body defines no \<^verbatim>\<open>__hash__\<close>. An object whose
  class has \<^verbatim>\<open>__hash__ = None\<close> is unhashable: \<^verbatim>\<open>hash\<close> raises \<^verbatim>\<open>TypeError\<close>.
\<close>

definition HIParamsWTensors_hash ::
  "('b HIParamsWTensors \<Rightarrow> int) \<Rightarrow> ('b HIParamsWTensors \<Rightarrow> int) \<Rightarrow> 'b HIParamsWTensors
     \<Rightarrow> error + int" where
  "HIParamsWTensors_hash inherited_hash fields_hash self =
     (case dataclass_hash_action False True False False of
        keep_inherited \<Rightarrow> Inr (inherited_hash self)
      | hash_set_none \<Rightarrow> Inl (TypeError Unhashable)
      | hash_add \<Rightarrow> Inr (fields_hash self)
      | hash_exception \<Rightarrow> Inl (TypeError Unhashable))"

section \<open>The operators\<close>

text \<open>
  \<^verbatim>\<open>operators.py\<close>. Before any of its functions can be called the module is imported, and
  so compiled. The header of a compound statement (\<^verbatim>\<open>def\<close>, \<^verbatim>\<open>for\<close>) must end with a
  colon; the first header that does not makes the compilation, and with it the import,
  raise \<^verbatim>\<open>SyntaxError\<close> at its line. The headers of the module, with their line numbers,
  are copied from the source: the one of line 8 is written without its colon.
\<close>

definition operators_headers :: "(nat \<times> string) list" where
  "operators_headers =
     [(8, ''def creation_annihilation_operator(dimension: int) -> Tuple[np.ndarray, np.ndarray]''),
      (14, ''    for i in range(dimension - 1):''),
      (19, ''def number_operator(dimension: int) -> np.ndarray:''),
      (25, ''def pauli_operators() -> Tuple[np.ndarray, np.ndarray, np.ndarray]:'')]"

fun compile_headers :: "(nat \<times> string) list \<Rightarrow> error option" where
  "compile_headers [] = None"
| "compile_headers ((lineno, header) # rest) =
     (if header \<noteq> [] \<and> last header = CHR '':'' then compile_headers rest
      else Some (SyntaxError lineno))"

definition import_operators :: "error + unit" where
  "import_operators =
     (case compile_headers operators_headers of Some e \<Rightarrow> Inl e | None \<Rightarrow> Inr ())"

text \<open>
  The bodies of the functions, as they are written. A matrix is the list of its rows; the
  entries of a float array are read as real numbers and \<^verbatim>\<open>np.sqrt\<close> as the real square
  root.

  \<^verbatim>\<open>np.zeros((d, d))\<close> raises \<^verbatim>\<open>ValueError\<close> for a negative \<open>d\<close>, and also when the size
  of the array in bytes (8 for each of the \<open>d * d\<close> entries) exceeds the largest signed
  64-bit integer, that is from \<open>d = 2 ^ 30\<close> on (the message begins with the text given
  here). Running out of memory is not modelled, here as for every other object the code
  creates. An assignment to an entry raises \<^verbatim>\<open>IndexError\<close> out of range; \<^verbatim>\<open>range(n)\<close> is
  empty for \<open>n \<le> 0\<close>.
\<close>

definition np_zeros :: "int \<Rightarrow> error + real list list" where
  "np_zeros d =
     (if d < 0 then Inl (ValueError ''negative dimensions are not allowed'')
      else if 2 ^ 63 - 1 < 8 * d * d then Inl (ValueError ''array is too big'')
      else Inr (replicate (nat d) (replicate (nat d) 0)))"

definition setitem :: "real list list \<Rightarrow> nat \<Rightarrow> nat \<Rightarrow> real \<Rightarrow> error + real list list" where
  "setitem a i j x =
     (if i < length a \<and> j < length (a ! i) then Inr (a[i := (a ! i)[j := x]])
      else Inl IndexError)"

definition py_range :: "int \<Rightarrow> nat list" where
  "py_range n = [0..<nat n]"

fun creation_annihilation_loop ::
  "nat list \<Rightarrow> real list list \<times> real list list \<Rightarrow> error + real list list \<times> real list list" where
  "creation_annihilation_loop [] (creation, annihilation) = Inr (creation, annihilation)"
| "creation_annihilation_loop (i # is) (creation, annihilation) =
     bind_err (setitem creation i (i + 1) (sqrt (real (i + 1)))) (\<lambda>creation.
     bind_err (setitem annihilation (i + 1) i (sqrt (real (i + 1)))) (\<lambda>annihilation.
     creation_annihilation_loop is (creation, annihilation)))"

definition creation_annihilation_operator_body ::
  "int \<Rightarrow> error + real list list \<times> real list list" where
  "creation_annihilation_operator_body dimension =
     bind_err (np_zeros dimension) (\<lambda>creation.
     bind_err (np_zeros dimension) (\<lambda>annihilation.
     creation_annihilation_loop (py_range (dimension - 1)) (creation, annihilation)))"

definition pauli_operators_body ::
  "complex list list \<times> complex list list \<times> complex list list" where
  "pauli_operators_body =
     (let sigma_x = [[0, 1], [1, 0]];
          sigma_y = [[0, - \<i>], [\<i>, 0]];
          sigma_z = [[1, 0], [0, - 1]]
      in (sigma_x, sigma_y, sigma_z))"

text \<open>A call of a function of the module: the import, then the body.\<close>

definition creation_annihilation_operator ::
  "int \<Rightarrow> error + real list list \<times> real list list" where
  "creation_annihilation_operator dimension =
     bind_err import_operators (\<lambda>_. creation_annihilation_operator_body dimension)"

definition pauli_operators ::
  "error + complex list list \<times> complex list list \<times> complex list list" where
  "pauli_operators = bind_err import_operators (\<lambda>_. Inr pauli_operators_body)"

text \<open>
  The two matrices after the first \<open>k\<close> iterations of the loop, entry by entry: the
  loop invariant.
\<close>

definition creation_upto :: "nat \<Rightarrow> nat \<Rightarrow> real list list" where
  "creation_upto n k =
     map (\<lambda>i. map (\<lambda>j. if j = i + 1 \<and> i < k then sqrt (real (i + 1)) else 0) [0..<n]) [0..<n]"

definition annihilation_upto :: "nat \<Rightarrow> nat \<Rightarrow> real list list" where
  "annihilation_upto n k =
     map (\<lambda>i. map (\<lambda>j. if i = j + 1 \<and> j < k then sqrt (real (j + 1)) else 0) [0..<n]) [0..<n]"

text \<open>
  The matrix product, the identity matrix and the multiple of a matrix, in which the
  algebra of the Pauli matrices is stated.
\<close>

definition matmul :: "complex list list \<Rightarrow> complex list list \<Rightarrow> complex list list" where
  "matmul a b = map (\<lambda>row. map (\<lambda>col. sum_list (map2 (*) row col)) (transpose b)) a"

definition identity_matrix :: "nat \<Rightarrow> complex list list" where
  "identity_matrix n = map (\<lambda>i. map (\<lambda>j. if i = j then 1 else 0) [0..<n]) [0..<n]"

definition scale :: "complex \<Rightarrow> complex list list \<Rightarrow> complex list list" where
  "scale c a = map (map ((*) c)) a"

section \<open>Binding the arguments\<close>

lemma unexpected_keywords_Nil_iff:
  "unexpected_keywords names kwargs = [] \<longleftrightarrow> fst ` set kwargs \<subseteq> set names"
  by (auto simp: unexpected_keywords_def filter_empty_conv)

lemma missing_arguments_Nil_iff:
  "missing_arguments names kwargs = [] \<longleftrightarrow> set names \<subseteq> fst ` set kwargs"
  by (auto simp: missing_arguments_def filter_empty_conv map_of_eq_None_iff)

lemma beartype_None_iff:
  "beartype sig kwargs = None \<longleftrightarrow>
     (\<forall>(n, t) \<in> set sig. \<forall>v. map_of kwargs n = Some v \<longrightarrow> isinstance v t)"
  by (induction sig kwargs rule: beartype.induct) (auto split: option.splits)

lemma beartype_Some_mismatch: "beartype sig kwargs = Some e \<Longrightarrow> is_type_mismatch e"
  by (induction sig kwargs rule: beartype.induct) (auto split: option.splits if_splits)

lemma bind_arguments_Inr_iff:
  "bind_arguments sig kwargs = Inr u \<longleftrightarrow>
     beartype sig kwargs = None \<and> fst ` set kwargs = set (map fst sig)"
  using unexpected_keywords_Nil_iff [of "map fst sig" kwargs]
    missing_arguments_Nil_iff [of "map fst sig" kwargs]
  by (auto simp: bind_arguments_def split: option.splits list.splits)

lemma bind_arguments_Inl_mismatch:
  "bind_arguments sig kwargs = Inl e \<Longrightarrow> is_type_mismatch e"
  by (auto simp: bind_arguments_def split: option.splits list.splits dest: beartype_Some_mismatch)

lemma bind_arguments_wrong_names:
  assumes "fst ` set kwargs \<noteq> set (map fst sig)"
  shows "\<exists>e. bind_arguments sig kwargs = Inl e \<and> is_type_mismatch e"
proof (cases "bind_arguments sig kwargs")
  case (Inl e)
  then show ?thesis by (simp add: bind_arguments_Inl_mismatch)
next
  case (Inr u)
  then show ?thesis using assms by (simp add: bind_arguments_Inr_iff)
qed

lemma positivity_test_Inr:
  "positivity_test v name = Inr u \<Longrightarrow> v = PFloat NaN \<or> py_gt_zero v"
proof (cases v)
  case (PFloat f)
  assume "positivity_test v name = Inr u"
  with PFloat show ?thesis by (cases f) (auto simp: positivity_test_def split: if_splits)
qed (auto simp: positivity_test_def split: if_splits)

lemma positivity_test_int:
  "positivity_test (PInt k) name =
     (if k \<le> 0 then Inl (ValueError (name @ '' must be positive!'')) else Inr ())"
  by (simp add: positivity_test_def)

lemma positivity_test_float:
  "positivity_test (PFloat f) name =
     (if float_le_zero f then Inl (ValueError (name @ '' must be positive!'')) else Inr ())"
  by (simp add: positivity_test_def)

lemma argument_Some: "map_of kwargs n = Some v \<Longrightarrow> argument kwargs n = v"
  by (simp add: argument_def)

lemma py_gt_zero_not_le:
  "py_gt_zero v \<Longrightarrow> py_le_zero v = Inr False"
proof (cases v)
  case (PFloat f)
  assume "py_gt_zero v"
  with PFloat show ?thesis by (cases f) auto
qed auto

lemma TDVP1SiteParameters_init_Inr:
  assumes "TDVP1SiteParameters_init bs (new_object TDVP1SiteParameters_cls) a b = Inr obj"
  shows "obj = \<lparr>obj_class = TDVP1SiteParameters_cls,
                 obj_slots = [(''numiter_lanczos'', a), (''max_bond_dimension'', b)]\<rparr>
         \<and> (a = PFloat NaN \<or> py_gt_zero a) \<and> (b = PFloat NaN \<or> py_gt_zero b)"
proof -
  from assms obtain u1 u2 where
    p: "positivity_test a ''number of Lanczos iterations'' = Inr u1"
       "positivity_test b ''maximum bond dimension'' = Inr u2"
    by (cases "positivity_test a ''number of Lanczos iterations''";
        cases "positivity_test b ''maximum bond dimension''")
       (auto simp: TDVP1SiteParameters_init_def)
  with assms have "obj = \<lparr>obj_class = TDVP1SiteParameters_cls,
                 obj_slots = [(''numiter_lanczos'', a), (''max_bond_dimension'', b)]\<rparr>"
    by (simp add: TDVP1SiteParameters_init_def py_setattr_def new_object_def)
  with p show ?thesis by (auto dest: positivity_test_Inr)
qed

lemma TDVP2SiteParameters_init_Inr:
  assumes "TDVP2SiteParameters_init bs (new_object TDVP2SiteParameters_cls) a b c = Inr obj"
  shows "obj = \<lparr>obj_class = TDVP2SiteParameters_cls,
                 obj_slots = [(''numiter_lanczos'', a), (''max_bond_dimension'', b),
                              (''relative_svd_tolerance'', c)]\<rparr>
         \<and> (a = PFloat NaN \<or> py_gt_zero a) \<and> (b = PFloat NaN \<or> py_gt_zero b)
         \<and> (c = PFloat NaN \<or> py_gt_zero c)"
proof -
  from assms obtain u1 u2 u3 where
    p: "positivity_test a ''number of Lanczos iterations'' = Inr u1"
       "positivity_test b ''maximum bond dimension'' = Inr u2"
       "positivity_test c ''relative SVD tolerance'' = Inr u3"
    by (cases "positivity_test a ''number of Lanczos iterations''";
        cases "positivity_test b ''maximum bond dimension''";
        cases "positivity_test c ''relative SVD tolerance''")
       (auto simp: TDVP2SiteParameters_init_def)
  with assms have "obj = \<lparr>obj_class = TDVP2SiteParameters_cls,
                 obj_slots = [(''numiter_lanczos'', a), (''max_bond_dimension'', b),
                              (''relative_svd_tolerance'', c)]\<rparr>"
    by (simp add: TDVP2SiteParameters_init_def py_setattr_def new_object_def)
  with p show ?thesis by (auto dest: positivity_test_Inr)
qed

lemma TEBDParameters_init_Inr:
  assumes "TEBDParameters_init bs (new_object TEBDParameters_cls) a b = Inr obj"
  shows "obj = \<lparr>obj_class = TEBDParameters_cls,
                 obj_slots = [(''max_bond_dimension'', a), (''svd_relative_tolerance'', b)]\<rparr>
         \<and> (a = PFloat NaN \<or> py_gt_zero a) \<and> (b = PFloat NaN \<or> py_gt_zero b)"
proof -
  from assms obtain u1 u2 where
    p: "positivity_test a ''maximum bond dimension'' = Inr u1"
       "positivity_test b ''SVD relative tolerance'' = Inr u2"
    by (cases "positivity_test a ''maximum bond dimension''";
        cases "positivity_test b ''SVD relative tolerance''")
       (auto simp: TEBDParameters_init_def)
  with assms have "obj = \<lparr>obj_class = TEBDParameters_cls,
                 obj_slots = [(''max_bond_dimension'', a), (''svd_relative_tolerance'', b)]\<rparr>"
    by (simp add: TEBDParameters_init_def py_setattr_def new_object_def)
  with p show ?thesis by (auto dest: positivity_test_Inr)
qed

text \<open>What a successful call of each class has received and what it returns.\<close>

lemma TDVP1SiteParameters_Inr:
  assumes "TDVP1SiteParameters bs kwargs = Inr obj"
  shows "fst ` set kwargs = set (own_slots TDVP1SiteParameters_cls)
         \<and> obj = \<lparr>obj_class = TDVP1SiteParameters_cls,
                  obj_slots = map (\<lambda>n. (n, argument kwargs n)) (own_slots TDVP1SiteParameters_cls)\<rparr>
         \<and> list_all (\<lambda>(n, v). v = PFloat NaN \<or> py_gt_zero v) (obj_slots obj)"
proof -
  from assms obtain u where u: "bind_arguments TDVP1SiteParameters_sig kwargs = Inr u"
    by (cases "bind_arguments TDVP1SiteParameters_sig kwargs") (auto simp: TDVP1SiteParameters_def)
  then have k: "fst ` set kwargs = set (own_slots TDVP1SiteParameters_cls)"
    by (auto simp: bind_arguments_Inr_iff TDVP1SiteParameters_sig_def)
  from assms u have "TDVP1SiteParameters_init bs (new_object TDVP1SiteParameters_cls)
      (argument kwargs ''numiter_lanczos'') (argument kwargs ''max_bond_dimension'') = Inr obj"
    by (simp add: TDVP1SiteParameters_def)
  from TDVP1SiteParameters_init_Inr [OF this] k show ?thesis by simp
qed

lemma TDVP2SiteParameters_Inr:
  assumes "TDVP2SiteParameters bs kwargs = Inr obj"
  shows "fst ` set kwargs = set (own_slots TDVP2SiteParameters_cls)
         \<and> obj = \<lparr>obj_class = TDVP2SiteParameters_cls,
                  obj_slots = map (\<lambda>n. (n, argument kwargs n)) (own_slots TDVP2SiteParameters_cls)\<rparr>
         \<and> list_all (\<lambda>(n, v). v = PFloat NaN \<or> py_gt_zero v) (obj_slots obj)"
proof -
  from assms obtain u where u: "bind_arguments TDVP2SiteParameters_sig kwargs = Inr u"
    by (cases "bind_arguments TDVP2SiteParameters_sig kwargs") (auto simp: TDVP2SiteParameters_def)
  then have k: "fst ` set kwargs = set (own_slots TDVP2SiteParameters_cls)"
    by (auto simp: bind_arguments_Inr_iff TDVP2SiteParameters_sig_def)
  from assms u have "TDVP2SiteParameters_init bs (new_object TDVP2SiteParameters_cls)
      (argument kwargs ''numiter_lanczos'') (argument kwargs ''max_bond_dimension'')
      (argument kwargs ''relative_svd_tolerance'') = Inr obj"
    by (simp add: TDVP2SiteParameters_def)
  from TDVP2SiteParameters_init_Inr [OF this] k show ?thesis by simp
qed

lemma TEBDParameters_Inr:
  assumes "TEBDParameters bs kwargs = Inr obj"
  shows "fst ` set kwargs = set (own_slots TEBDParameters_cls)
         \<and> obj = \<lparr>obj_class = TEBDParameters_cls,
                  obj_slots = map (\<lambda>n. (n, argument kwargs n)) (own_slots TEBDParameters_cls)\<rparr>
         \<and> list_all (\<lambda>(n, v). v = PFloat NaN \<or> py_gt_zero v) (obj_slots obj)"
proof -
  from assms obtain u where u: "bind_arguments TEBDParameters_sig kwargs = Inr u"
    by (cases "bind_arguments TEBDParameters_sig kwargs") (auto simp: TEBDParameters_def)
  then have k: "fst ` set kwargs = set (own_slots TEBDParameters_cls)"
    by (auto simp: bind_arguments_Inr_iff TEBDParameters_sig_def)
  from assms u have "TEBDParameters_init bs (new_object TEBDParameters_cls)
      (argument kwargs ''max_bond_dimension'') (argument kwargs ''svd_relative_tolerance'') = Inr obj"
    by (simp add: TEBDParameters_def)
  from TEBDParameters_init_Inr [OF this] k show ?thesis by simp
qed

lemma bind_err_Inr_iff: "bind_err x f = Inr y \<longleftrightarrow> (\<exists>a. x = Inr a \<and> f a = Inr y)"
  by (cases x) auto

lemma generate_parameters_Member:
  "generate_parameters bs (Member TDVP1SITE) kwargs = TDVP1SiteParameters bs kwargs"
  "generate_parameters bs (Member TDVP2SITE) kwargs = TDVP2SiteParameters bs kwargs"
  "generate_parameters bs (Member TEBD) kwargs = TEBDParameters bs kwargs"
  "generate_parameters bs (Member RUNGEKUTTA) kwargs =
     Inl (NotImplementedError ''Runge-Kutta integration is not yet implemented.'')"
  by (simp_all add: generate_parameters_def)

text \<open>A call that returns an object has taken one of the first three branches.\<close>

lemma generate_parameters_branch:
  assumes "generate_parameters bs mode kwargs = Inr obj"
  shows "(mode_equals mode TDVP1SITE = Inr True \<and> TDVP1SiteParameters bs kwargs = Inr obj)
       \<or> (mode_equals mode TDVP1SITE = Inr False \<and> mode_equals mode TDVP2SITE = Inr True
            \<and> TDVP2SiteParameters bs kwargs = Inr obj)
       \<or> (mode_equals mode TDVP1SITE = Inr False \<and> mode_equals mode TDVP2SITE = Inr False
            \<and> mode_equals mode TEBD = Inr True \<and> TEBDParameters bs kwargs = Inr obj)"
  using assms
  by (auto simp: generate_parameters_def bind_err_Inr_iff split: if_splits)

lemma generate_parameters_Inr:
  assumes "generate_parameters bs mode kwargs = Inr obj"
  shows "fst ` set kwargs = set (own_slots (obj_class obj))
         \<and> obj_slots obj = map (\<lambda>n. (n, argument kwargs n)) (own_slots (obj_class obj))
         \<and> list_all (\<lambda>(n, v). v = PFloat NaN \<or> py_gt_zero v) (obj_slots obj)"
  using generate_parameters_branch [OF assms]
proof (elim disjE conjE)
  assume "TDVP1SiteParameters bs kwargs = Inr obj"
  from TDVP1SiteParameters_Inr [OF this] show ?thesis by clarsimp
next
  assume "TDVP2SiteParameters bs kwargs = Inr obj"
  from TDVP2SiteParameters_Inr [OF this] show ?thesis by clarsimp
next
  assume "TEBDParameters bs kwargs = Inr obj"
  from TEBDParameters_Inr [OF this] show ?thesis by clarsimp
qed

lemma generate_parameters_class:
  assumes "generate_parameters bs mode kw1 = Inr a" and "generate_parameters bs mode kw2 = Inr b"
  shows "obj_class a = obj_class b"
proof -
  have c: "obj_class x = (if mode_equals mode TDVP1SITE = Inr True then TDVP1SiteParameters_cls
                          else if mode_equals mode TDVP2SITE = Inr True then TDVP2SiteParameters_cls
                          else TEBDParameters_cls)"
    if "generate_parameters bs mode kw = Inr x" for kw x
    using generate_parameters_branch [OF that]
  proof (elim disjE conjE)
    assume "mode_equals mode TDVP1SITE = Inr True" "TDVP1SiteParameters bs kw = Inr x"
    with TDVP1SiteParameters_Inr [of bs kw x] show ?thesis by simp
  next
    assume "mode_equals mode TDVP1SITE = Inr False" "mode_equals mode TDVP2SITE = Inr True"
      "TDVP2SiteParameters bs kw = Inr x"
    with TDVP2SiteParameters_Inr [of bs kw x] show ?thesis by simp
  next
    assume "mode_equals mode TDVP1SITE = Inr False" "mode_equals mode TDVP2SITE = Inr False"
      "TEBDParameters bs kw = Inr x"
    with TEBDParameters_Inr [of bs kw x] show ?thesis by simp
  qed
  from c [OF assms(1)] c [OF assms(2)] show ?thesis by simp
qed

text \<open>The calls with well-typed arguments for every parameter, in any order.\<close>

lemma TDVP1SiteParameters_call:
  assumes "map_of kwargs ''numiter_lanczos'' = Some (PInt k)"
    and "map_of kwargs ''max_bond_dimension'' = Some (PInt m)"
    and "fst ` set kwargs = {''numiter_lanczos'', ''max_bond_dimension''}"
  shows "TDVP1SiteParameters bs kwargs =
     (if k \<le> 0 then Inl (ValueError ''number of Lanczos iterations must be positive!'')
      else if m \<le> 0 then Inl (ValueError ''maximum bond dimension must be positive!'')
      else Inr \<lparr>obj_class = TDVP1SiteParameters_cls,
                obj_slots = [(''numiter_lanczos'', PInt k), (''max_bond_dimension'', PInt m)]\<rparr>)"
proof -
  have "bind_arguments TDVP1SiteParameters_sig kwargs = Inr ()"
    using assms by (simp add: bind_arguments_Inr_iff beartype_None_iff TDVP1SiteParameters_sig_def)
  then show ?thesis
    using assms(1,2)
    by (simp add: TDVP1SiteParameters_def TDVP1SiteParameters_init_def argument_Some
        positivity_test_int py_setattr_def new_object_def)
qed

lemma TDVP2SiteParameters_call:
  assumes "map_of kwargs ''numiter_lanczos'' = Some (PInt k)"
    and "map_of kwargs ''max_bond_dimension'' = Some (PInt m)"
    and "map_of kwargs ''relative_svd_tolerance'' = Some (PFloat t)"
    and "fst ` set kwargs = {''numiter_lanczos'', ''max_bond_dimension'', ''relative_svd_tolerance''}"
  shows "TDVP2SiteParameters bs kwargs =
     (if k \<le> 0 then Inl (ValueError ''number of Lanczos iterations must be positive!'')
      else if m \<le> 0 then Inl (ValueError ''maximum bond dimension must be positive!'')
      else if float_le_zero t then Inl (ValueError ''relative SVD tolerance must be positive!'')
      else Inr \<lparr>obj_class = TDVP2SiteParameters_cls,
                obj_slots = [(''numiter_lanczos'', PInt k), (''max_bond_dimension'', PInt m),
                             (''relative_svd_tolerance'', PFloat t)]\<rparr>)"
proof -
  have "bind_arguments TDVP2SiteParameters_sig kwargs = Inr ()"
    using assms by (simp add: bind_arguments_Inr_iff beartype_None_iff TDVP2SiteParameters_sig_def)
  then show ?thesis
    using assms(1,2,3)
    by (simp add: TDVP2SiteParameters_def TDVP2SiteParameters_init_def argument_Some
        positivity_test_int positivity_test_float py_setattr_def new_object_def)
qed

lemma TEBDParameters_call:
  assumes "map_of kwargs ''max_bond_dimension'' = Some (PInt m)"
    and "map_of kwargs ''svd_relative_tolerance'' = Some (PFloat t)"
    and "fst ` set kwargs = {''max_bond_dimension'', ''svd_relative_tolerance''}"
  shows "TEBDParameters bs kwargs =
     (if m \<le> 0 then Inl (ValueError ''maximum bond dimension must be positive!'')
      else if float_le_zero t then Inl (ValueError ''SVD relative tolerance must be positive!'')
      else Inr \<lparr>obj_class = TEBDParameters_cls,
                obj_slots = [(''max_bond_dimension'', PInt m),
                             (''svd_relative_tolerance'', PFloat t)]\<rparr>)"
proof -
  have "bind_arguments TEBDParameters_sig kwargs = Inr ()"
    using assms by (simp add: bind_arguments_Inr_iff beartype_None_iff TEBDParameters_sig_def)
  then show ?thesis
    using assms(1,2)
    by (simp add: TEBDParameters_def TEBDParameters_init_def argument_Some
        positivity_test_int positivity_test_float py_setattr_def new_object_def)
qed

section \<open>Validation of the fields\<close>

text \<open>
  The order of the tests. Each of the three classes, called with a value of the declared
  type for every parameter, tests the fields in the order of its signature: the first
  field that is \<open>\<le> 0\<close> makes the call raise \<^verbatim>\<open>ValueError\<close> with the message made of that
  field's display name and \<^verbatim>\<open>" must be positive!"\<close>, and no object is returned; otherwise
  the object with the declared fields is returned. An object that a class returns has
  exactly the fields that the class declares.
\<close>

theorem constructors_validate_in_order:
  "(map_of kw1 ''numiter_lanczos'' = Some (PInt k1)
      \<and> map_of kw1 ''max_bond_dimension'' = Some (PInt m1)
      \<and> fst ` set kw1 = {''numiter_lanczos'', ''max_bond_dimension''}
    \<longrightarrow> TDVP1SiteParameters bs kw1 =
       (if k1 \<le> 0 then Inl (ValueError ''number of Lanczos iterations must be positive!'')
        else if m1 \<le> 0 then Inl (ValueError ''maximum bond dimension must be positive!'')
        else Inr \<lparr>obj_class = TDVP1SiteParameters_cls,
                  obj_slots = [(''numiter_lanczos'', PInt k1), (''max_bond_dimension'', PInt m1)]\<rparr>))
   \<and> (map_of kw2 ''numiter_lanczos'' = Some (PInt k2)
      \<and> map_of kw2 ''max_bond_dimension'' = Some (PInt m2)
      \<and> map_of kw2 ''relative_svd_tolerance'' = Some (PFloat t2)
      \<and> fst ` set kw2 = {''numiter_lanczos'', ''max_bond_dimension'', ''relative_svd_tolerance''}
    \<longrightarrow> TDVP2SiteParameters bs kw2 =
       (if k2 \<le> 0 then Inl (ValueError ''number of Lanczos iterations must be positive!'')
        else if m2 \<le> 0 then Inl (ValueError ''maximum bond dimension must be positive!'')
        else if float_le_zero t2 then Inl (ValueError ''relative SVD tolerance must be positive!'')
        else Inr \<lparr>obj_class = TDVP2SiteParameters_cls,
                  obj_slots = [(''numiter_lanczos'', PInt k2), (''max_bond_dimension'', PInt m2),
                               (''relative_svd_tolerance'', PFloat t2)]\<rparr>))
   \<and> (map_of kw3 ''max_bond_dimension'' = Some (PInt m3)
      \<and> map_of kw3 ''svd_relative_tolerance'' = Some (PFloat t3)
      \<and> fst ` set kw3 = {''max_bond_dimension'', ''svd_relative_tolerance''}
    \<longrightarrow> TEBDParameters bs kw3 =
       (if m3 \<le> 0 then Inl (ValueError ''maximum bond dimension must be positive!'')
        else if float_le_zero t3 then Inl (ValueError ''SVD relative tolerance must be positive!'')
        else Inr \<lparr>obj_class = TEBDParameters_cls,
                  obj_slots = [(''max_bond_dimension'', PInt m3),
                               (''svd_relative_tolerance'', PFloat t3)]\<rparr>))
   \<and> (TDVP1SiteParameters bs kw = Inr obj \<or> TDVP2SiteParameters bs kw = Inr obj
        \<or> TEBDParameters bs kw = Inr obj
    \<longrightarrow> map fst (obj_slots obj) = own_slots (obj_class obj))"
proof (intro conjI impI)
  assume "map_of kw1 ''numiter_lanczos'' = Some (PInt k1)
      \<and> map_of kw1 ''max_bond_dimension'' = Some (PInt m1)
      \<and> fst ` set kw1 = {''numiter_lanczos'', ''max_bond_dimension''}"
  then show "TDVP1SiteParameters bs kw1 =
       (if k1 \<le> 0 then Inl (ValueError ''number of Lanczos iterations must be positive!'')
        else if m1 \<le> 0 then Inl (ValueError ''maximum bond dimension must be positive!'')
        else Inr \<lparr>obj_class = TDVP1SiteParameters_cls,
                  obj_slots = [(''numiter_lanczos'', PInt k1), (''max_bond_dimension'', PInt m1)]\<rparr>)"
    using TDVP1SiteParameters_call [of kw1 k1 m1 bs] by blast
next
  assume "map_of kw2 ''numiter_lanczos'' = Some (PInt k2)
      \<and> map_of kw2 ''max_bond_dimension'' = Some (PInt m2)
      \<and> map_of kw2 ''relative_svd_tolerance'' = Some (PFloat t2)
      \<and> fst ` set kw2 = {''numiter_lanczos'', ''max_bond_dimension'', ''relative_svd_tolerance''}"
  then show "TDVP2SiteParameters bs kw2 =
       (if k2 \<le> 0 then Inl (ValueError ''number of Lanczos iterations must be positive!'')
        else if m2 \<le> 0 then Inl (ValueError ''maximum bond dimension must be positive!'')
        else if float_le_zero t2 then Inl (ValueError ''relative SVD tolerance must be positive!'')
        else Inr \<lparr>obj_class = TDVP2SiteParameters_cls,
                  obj_slots = [(''numiter_lanczos'', PInt k2), (''max_bond_dimension'', PInt m2),
                               (''relative_svd_tolerance'', PFloat t2)]\<rparr>)"
    using TDVP2SiteParameters_call [of kw2 k2 m2 t2 bs] by blast
next
  assume "map_of kw3 ''max_bond_dimension'' = Some (PInt m3)
      \<and> map_of kw3 ''svd_relative_tolerance'' = Some (PFloat t3)
      \<and> fst ` set kw3 = {''max_bond_dimension'', ''svd_relative_tolerance''}"
  then show "TEBDParameters bs kw3 =
       (if m3 \<le> 0 then Inl (ValueError ''maximum bond dimension must be positive!'')
        else if float_le_zero t3 then Inl (ValueError ''SVD relative tolerance must be positive!'')
        else Inr \<lparr>obj_class = TEBDParameters_cls,
                  obj_slots = [(''max_bond_dimension'', PInt m3),
                               (''svd_relative_tolerance'', PFloat t3)]\<rparr>)"
    using TEBDParameters_call [of kw3 m3 t3 bs] by blast
next
  assume a: "TDVP1SiteParameters bs kw = Inr obj \<or> TDVP2SiteParameters bs kw = Inr obj
        \<or> TEBDParameters bs kw = Inr obj"
  then have "\<exists>mode. generate_parameters bs mode kw = Inr obj"
    by (metis generate_parameters_Member(1,2,3))
  then obtain mode where g: "generate_parameters bs mode kw = Inr obj" ..
  from generate_parameters_Inr [OF g]
  show "map fst (obj_slots obj) = own_slots (obj_class obj)" by (simp add: comp_def)
qed

theorem constructors_validate_in_order_witness:
  "TDVP1SiteParameters [] [(''max_bond_dimension'', PInt 0), (''numiter_lanczos'', PInt 0)]
     = Inl (ValueError ''number of Lanczos iterations must be positive!'')
   \<and> TDVP2SiteParameters [] [(''numiter_lanczos'', PInt 3), (''max_bond_dimension'', PInt (- 1)),
        (''relative_svd_tolerance'', PFloat (Finite 0))]
     = Inl (ValueError ''maximum bond dimension must be positive!'')
   \<and> TEBDParameters [] [(''max_bond_dimension'', PInt 20),
        (''svd_relative_tolerance'', PFloat (Finite (- 1 / 1000)))]
     = Inl (ValueError ''SVD relative tolerance must be positive!'')
   \<and> TEBDParameters [] [(''max_bond_dimension'', PInt 20),
        (''svd_relative_tolerance'', PFloat (Finite (1 / 1000)))]
     = Inr \<lparr>obj_class = TEBDParameters_cls,
            obj_slots = [(''max_bond_dimension'', PInt 20),
                         (''svd_relative_tolerance'', PFloat (Finite (1 / 1000)))]\<rparr>"
  using constructors_validate_in_order [where bs = "[]"
      and ?kw1.0 = "[(''max_bond_dimension'', PInt 0), (''numiter_lanczos'', PInt 0)]"
      and ?k1.0 = 0 and ?m1.0 = 0
      and ?kw2.0 = "[(''numiter_lanczos'', PInt 3), (''max_bond_dimension'', PInt (- 1)),
        (''relative_svd_tolerance'', PFloat (Finite 0))]"
      and ?k2.0 = 3 and ?m2.0 = "- 1" and ?t2.0 = "Finite 0"
      and ?kw3.0 = "[(''max_bond_dimension'', PInt 20),
        (''svd_relative_tolerance'', PFloat (Finite (- 1 / 1000)))]"
      and ?m3.0 = 20 and ?t3.0 = "Finite (- 1 / 1000)"
      and kw = "[(''max_bond_dimension'', PInt 20),
        (''svd_relative_tolerance'', PFloat (Finite (1 / 1000)))]"
      and obj = "\<lparr>obj_class = TEBDParameters_cls,
            obj_slots = [(''max_bond_dimension'', PInt 20),
                         (''svd_relative_tolerance'', PFloat (Finite (1 / 1000)))]\<rparr>"]
    constructors_validate_in_order [where bs = "[]"
      and ?kw3.0 = "[(''max_bond_dimension'', PInt 20),
        (''svd_relative_tolerance'', PFloat (Finite (1 / 1000)))]"
      and ?m3.0 = 20 and ?t3.0 = "Finite (1 / 1000)"]
  by (simp add: insert_commute)

text \<open>
  C1. A field that is not strictly positive must make the construction raise the validation
  error, so that every record that exists has all its numeric fields strictly positive.
  The code tests \<^verbatim>\<open>value <= 0\<close>, which is false of a NaN: with a NaN tolerance (and the other
  fields positive) \<^verbatim>\<open>positivity_test\<close> raises nothing, and the two-site class returns a
  record whose tolerance is not strictly positive.
\<close>

theorem TDVP2SiteParameters_accepts_nan:
  "positivity_test (PFloat NaN) ''relative SVD tolerance'' = Inr ()
   \<and> TDVP2SiteParameters [] [(''numiter_lanczos'', PInt 1), (''max_bond_dimension'', PInt 1),
        (''relative_svd_tolerance'', PFloat NaN)]
     = Inr \<lparr>obj_class = TDVP2SiteParameters_cls,
            obj_slots = [(''numiter_lanczos'', PInt 1), (''max_bond_dimension'', PInt 1),
                         (''relative_svd_tolerance'', PFloat NaN)]\<rparr>
   \<and> \<not> py_gt_zero (PFloat NaN)"
  by (simp add: TDVP2SiteParameters_def TDVP2SiteParameters_init_def bind_arguments_def
      TDVP2SiteParameters_sig_def unexpected_keywords_def missing_arguments_def argument_def
      positivity_test_def py_setattr_def new_object_def)

section \<open>Dispatch on the mode\<close>

text \<open>
  C2. With the mode \<^verbatim>\<open>RUNGEKUTTA\<close>, \<^verbatim>\<open>generate_parameters\<close> raises
  \<^verbatim>\<open>NotImplementedError\<close> whatever keyword arguments it is given: no object is returned,
  and the exception is no invalid-argument one (\<^verbatim>\<open>ValueError\<close>), in particular not the one
  that an unknown mode with the default equality gets.
\<close>

theorem generate_parameters_rungekutta:
  "generate_parameters bs (Member RUNGEKUTTA) kwargs =
     Inl (NotImplementedError ''Runge-Kutta integration is not yet implemented.'')
   \<and> is_not_implemented (NotImplementedError ''Runge-Kutta integration is not yet implemented.'')
   \<and> \<not> is_invalid_argument (NotImplementedError ''Runge-Kutta integration is not yet implemented.'')
   \<and> generate_parameters bs (Member RUNGEKUTTA) kwargs \<noteq> Inl (ValueError msg)
   \<and> generate_parameters bs (Member RUNGEKUTTA) kwargs
       \<noteq> generate_parameters bs' (NonMember (\<lambda>t. Inr False) (Inr s)) kwargs'"
  by (simp add: generate_parameters_def)

text \<open>
  C3 (as amended). With a mode that is none of the four members of \<^verbatim>\<open>MPSIntegrationMode\<close>
  and that compares unequal to each of them (as every object with the default equality
  does), \<^verbatim>\<open>generate_parameters\<close> returns no object whatever the keyword arguments: it
  formats the mode and, when that gives the text \<open>s\<close>, raises \<^verbatim>\<open>ValueError\<close> (invalid
  argument) with the message \<^verbatim>\<open>Invalid mode s.\<close>; when the formatting itself raises, that
  exception is the outcome.
\<close>

theorem generate_parameters_invalid_mode:
  "(\<forall>t. eq t = Inr False) \<longrightarrow>
     generate_parameters bs (NonMember eq fmt) kwargs =
       (case fmt of
          Inl e \<Rightarrow> Inl e
        | Inr s \<Rightarrow> Inl (ValueError (''Invalid mode '' @ s @ ''.'')))
     \<and> (\<forall>s. fmt = Inr s \<longrightarrow>
          is_invalid_argument (ValueError (''Invalid mode '' @ s @ ''.'')))"
  by (cases fmt) (simp_all add: generate_parameters_def)

theorem generate_parameters_invalid_mode_witness:
  "generate_parameters [] (NonMember (\<lambda>t. Inr False) (Inr ''TDVP1''))
     [(''numiter_lanczos'', PInt 10), (''max_bond_dimension'', PInt 50)]
   = Inl (ValueError ''Invalid mode TDVP1.'')"
  using generate_parameters_invalid_mode [of "\<lambda>t. Inr False" "[]" "Inr ''TDVP1''"
      "[(''numiter_lanczos'', PInt 10), (''max_bond_dimension'', PInt 50)]"]
  by simp

text \<open>
  A non-member whose \<^verbatim>\<open>__eq__\<close> answers \<open>True\<close> to everything (such as
  \<^verbatim>\<open>unittest.mock.ANY\<close>) passes the first test, and the single-site class is called: a
  record is returned. A non-member with the default equality whose \<^verbatim>\<open>__format__\<close> raises
  gets that exception, not a \<^verbatim>\<open>ValueError\<close>.
\<close>

theorem generate_parameters_non_member_counterexample:
  "generate_parameters [] (NonMember (\<lambda>t. Inr True) (Inr ''<ANY>''))
     [(''numiter_lanczos'', PInt 10), (''max_bond_dimension'', PInt 50)]
   = Inr \<lparr>obj_class = TDVP1SiteParameters_cls,
          obj_slots = [(''numiter_lanczos'', PInt 10), (''max_bond_dimension'', PInt 50)]\<rparr>
   \<and> generate_parameters [] (NonMember (\<lambda>t. Inr False) (Inl (RaisedByArgument ''__format__'')))
     [(''numiter_lanczos'', PInt 10), (''max_bond_dimension'', PInt 50)]
   = Inl (RaisedByArgument ''__format__'')
   \<and> \<not> is_invalid_argument (RaisedByArgument ''__format__'')"
  by (simp add: generate_parameters_def TDVP1SiteParameters_call)

text \<open>
  C4 (as amended). The two-site class has exactly the three fields \<^verbatim>\<open>numiter_lanczos\<close>,
  \<^verbatim>\<open>max_bond_dimension\<close> and \<^verbatim>\<open>relative_svd_tolerance\<close>. With the mode \<^verbatim>\<open>TDVP2SITE\<close> and
  exactly these keywords, bound to integers \<open>k > 0\<close>, \<open>m > 0\<close> and a float \<open>t > 0\<close>,
  \<^verbatim>\<open>generate_parameters\<close> returns the object with these fields; with a keyword set that has
  an extra or lacks one of the three, it fails with a type/argument mismatch.
\<close>

theorem TDVP2SiteParameters_fields:
  "own_slots TDVP2SiteParameters_cls
     = [''numiter_lanczos'', ''max_bond_dimension'', ''relative_svd_tolerance'']
   \<and> (0 < k \<and> 0 < m \<and> float_gt_zero t
       \<and> map_of kwargs ''numiter_lanczos'' = Some (PInt k)
       \<and> map_of kwargs ''max_bond_dimension'' = Some (PInt m)
       \<and> map_of kwargs ''relative_svd_tolerance'' = Some (PFloat t)
       \<and> fst ` set kwargs = {''numiter_lanczos'', ''max_bond_dimension'', ''relative_svd_tolerance''}
      \<longrightarrow> generate_parameters bs (Member TDVP2SITE) kwargs =
            Inr \<lparr>obj_class = TDVP2SiteParameters_cls,
                 obj_slots = [(''numiter_lanczos'', PInt k), (''max_bond_dimension'', PInt m),
                              (''relative_svd_tolerance'', PFloat t)]\<rparr>)
   \<and> (fst ` set kwargs' \<noteq> {''numiter_lanczos'', ''max_bond_dimension'', ''relative_svd_tolerance''}
      \<longrightarrow> (\<exists>e. generate_parameters bs (Member TDVP2SITE) kwargs' = Inl e \<and> is_type_mismatch e))"
proof (intro conjI impI)
  show "own_slots TDVP2SiteParameters_cls
     = [''numiter_lanczos'', ''max_bond_dimension'', ''relative_svd_tolerance'']" by simp
next
  assume a: "0 < k \<and> 0 < m \<and> float_gt_zero t
       \<and> map_of kwargs ''numiter_lanczos'' = Some (PInt k)
       \<and> map_of kwargs ''max_bond_dimension'' = Some (PInt m)
       \<and> map_of kwargs ''relative_svd_tolerance'' = Some (PFloat t)
       \<and> fst ` set kwargs = {''numiter_lanczos'', ''max_bond_dimension'', ''relative_svd_tolerance''}"
  then have "\<not> float_le_zero t" by (cases t) auto
  with a show "generate_parameters bs (Member TDVP2SITE) kwargs =
            Inr \<lparr>obj_class = TDVP2SiteParameters_cls,
                 obj_slots = [(''numiter_lanczos'', PInt k), (''max_bond_dimension'', PInt m),
                              (''relative_svd_tolerance'', PFloat t)]\<rparr>"
    using TDVP2SiteParameters_call [of kwargs k m t bs]
    by (simp add: generate_parameters_Member)
next
  assume "fst ` set kwargs' \<noteq> {''numiter_lanczos'', ''max_bond_dimension'', ''relative_svd_tolerance''}"
  then have "fst ` set kwargs' \<noteq> set (map fst TDVP2SiteParameters_sig)"
    by (simp add: TDVP2SiteParameters_sig_def)
  from bind_arguments_wrong_names [OF this]
  show "\<exists>e. generate_parameters bs (Member TDVP2SITE) kwargs' = Inl e \<and> is_type_mismatch e"
    by (auto simp: generate_parameters_Member TDVP2SiteParameters_def)
qed

theorem TDVP2SiteParameters_fields_witness:
  "generate_parameters [] (Member TDVP2SITE)
     [(''numiter_lanczos'', PInt 10), (''max_bond_dimension'', PInt 50),
      (''relative_svd_tolerance'', PFloat (Finite (1 / 1000)))]
   = Inr \<lparr>obj_class = TDVP2SiteParameters_cls,
          obj_slots = [(''numiter_lanczos'', PInt 10), (''max_bond_dimension'', PInt 50),
                       (''relative_svd_tolerance'', PFloat (Finite (1 / 1000)))]\<rparr>
   \<and> (\<exists>e. generate_parameters [] (Member TDVP2SITE)
          [(''numiter_lanczos'', PInt 10), (''max_bond_dimension'', PInt 50)] = Inl e
        \<and> is_type_mismatch e)
   \<and> (\<exists>e. generate_parameters [] (Member TDVP2SITE)
          [(''numiter_lanczos'', PInt 10), (''max_bond_dimension'', PInt 50),
           (''relative_svd_tolerance'', PFloat (Finite (1 / 1000))), (''extra'', PInt 1)] = Inl e
        \<and> is_type_mismatch e)"
proof -
  let ?names = "{''numiter_lanczos'', ''max_bond_dimension'', ''relative_svd_tolerance''}"
  let ?kw = "[(''numiter_lanczos'', PInt 10), (''max_bond_dimension'', PInt 50),
        (''relative_svd_tolerance'', PFloat (Finite (1 / 1000)))]"
  let ?missing = "[(''numiter_lanczos'', PInt 10), (''max_bond_dimension'', PInt 50)]"
  let ?extra = "[(''numiter_lanczos'', PInt 10), (''max_bond_dimension'', PInt 50),
           (''relative_svd_tolerance'', PFloat (Finite (1 / 1000))), (''extra'', PInt 1)]"
  have 1: "fst ` set ?missing \<noteq> ?names"
  proof
    assume eq: "fst ` set ?missing = ?names"
    have "''relative_svd_tolerance'' \<in> fst ` set ?missing" unfolding eq by simp
    then show False by simp
  qed
  have 2: "fst ` set ?extra \<noteq> ?names"
  proof
    assume eq: "fst ` set ?extra = ?names"
    have "''extra'' \<in> fst ` set ?extra" by simp
    then have "''extra'' \<in> ?names" unfolding eq .
    then show False by simp
  qed
  have p: "0 < (10::int) \<and> 0 < (50::int) \<and> float_gt_zero (Finite (1 / 1000))
       \<and> map_of ?kw ''numiter_lanczos'' = Some (PInt 10)
       \<and> map_of ?kw ''max_bond_dimension'' = Some (PInt 50)
       \<and> map_of ?kw ''relative_svd_tolerance'' = Some (PFloat (Finite (1 / 1000)))
       \<and> fst ` set ?kw = ?names"
    by simp
  note T = TDVP2SiteParameters_fields [where bs = "[]" and k = 10 and m = 50
      and t = "Finite (1 / 1000)" and kwargs = ?kw]
  from T [where kwargs' = ?missing] p have a: "generate_parameters [] (Member TDVP2SITE) ?kw
   = Inr \<lparr>obj_class = TDVP2SiteParameters_cls,
          obj_slots = [(''numiter_lanczos'', PInt 10), (''max_bond_dimension'', PInt 50),
                       (''relative_svd_tolerance'', PFloat (Finite (1 / 1000)))]\<rparr>"
    by blast
  from T [where kwargs' = ?missing] 1
  have b: "\<exists>e. generate_parameters [] (Member TDVP2SITE) ?missing = Inl e \<and> is_type_mismatch e"
    by blast
  from T [where kwargs' = ?extra] 2
  have c: "\<exists>e. generate_parameters [] (Member TDVP2SITE) ?extra = Inl e \<and> is_type_mismatch e"
    by blast
  from a b c show ?thesis by (intro conjI)
qed

text \<open>
  With the field names of the spec (\<^verbatim>\<open>lanczos_iterations\<close>, \<^verbatim>\<open>svd_relative_tolerance\<close>) the
  call is refused: \<^verbatim>\<open>lanczos_iterations\<close> is no parameter of the class.
\<close>

theorem TDVP2SiteParameters_spec_names_counterexample:
  "generate_parameters [] (Member TDVP2SITE)
     [(''lanczos_iterations'', PInt 10), (''max_bond_dimension'', PInt 50),
      (''svd_relative_tolerance'', PFloat (Finite (1 / 1000)))]
   = Inl (TypeError (UnexpectedKeyword ''lanczos_iterations''))"
  by (simp add: generate_parameters_Member TDVP2SiteParameters_def bind_arguments_def
      TDVP2SiteParameters_sig_def unexpected_keywords_def)

section \<open>Value semantics and sealing\<close>

lemma map_of_eq_on_keys:
  assumes "fst ` set kw1 = S" "fst ` set kw2 = S"
    and "\<And>n. n \<in> S \<Longrightarrow> argument kw1 n = argument kw2 n"
  shows "map_of kw1 = map_of kw2"
proof
  fix n
  show "map_of kw1 n = map_of kw2 n"
  proof (cases "n \<in> S")
    case True
    with assms(1,2) obtain v1 v2 where "map_of kw1 n = Some v1" "map_of kw2 n = Some v2"
      by (metis map_of_eq_None_iff not_None_eq)
    with assms(3) [OF True] show ?thesis by (simp add: argument_def)
  next
    case False
    with assms(1,2) have "n \<notin> fst ` set kw1" "n \<notin> fst ` set kw2" by blast+
    then have "map_of kw1 n = None" "map_of kw2 n = None"
      by (simp_all add: map_of_eq_None_iff)
    then show ?thesis by simp
  qed
qed

lemma ABCParameter_key_constructed:
  assumes "generate_parameters bs mode kwargs = Inr obj"
  shows "ABCParameter_key obj
         = (obj_class obj, map (\<lambda>n. Some (argument kwargs n)) (own_slots (obj_class obj)))"
proof -
  have d: "distinct (own_slots (obj_class obj))" by (cases "obj_class obj") simp_all
  have "map_of (map (\<lambda>n. (n, argument kwargs n)) (own_slots (obj_class obj))) n
        = Some (argument kwargs n)" if "n \<in> set (own_slots (obj_class obj))" for n
    using that by (simp add: map_of_map_restrict)
  with generate_parameters_Inr [OF assms] show ?thesis
    by (simp add: ABCParameter_key_def)
qed

text \<open>
  C8. Two records that \<^verbatim>\<open>generate_parameters\<close> builds for the same mode are equal exactly
  when they were given the same field values, and then their hashes are equal too;
  records built from field values that differ somewhere are unequal.
\<close>

theorem parameter_records_value_semantics:
  "generate_parameters bs mode kw1 = Inr a \<and> generate_parameters bs mode kw2 = Inr b
   \<longrightarrow> (ABCParameter_eq a b \<longleftrightarrow> map_of kw1 = map_of kw2)
       \<and> (map_of kw1 = map_of kw2 \<longrightarrow> ABCParameter_hash h a = ABCParameter_hash h b)"
proof (intro impI, elim conjE)
  assume a: "generate_parameters bs mode kw1 = Inr a"
    and b: "generate_parameters bs mode kw2 = Inr b"
  have c: "obj_class a = obj_class b" using a b by (rule generate_parameters_class)
  let ?S = "own_slots (obj_class a)"
  have k1: "fst ` set kw1 = set ?S" using generate_parameters_Inr [OF a] by simp
  have k2: "fst ` set kw2 = set ?S" using generate_parameters_Inr [OF b] c by simp
  have keys: "ABCParameter_key a = ABCParameter_key b \<longleftrightarrow>
      (\<forall>n \<in> set ?S. argument kw1 n = argument kw2 n)"
    by (simp add: ABCParameter_key_constructed [OF a] ABCParameter_key_constructed [OF b] c)
  have "(\<forall>n \<in> set ?S. argument kw1 n = argument kw2 n) \<longleftrightarrow> map_of kw1 = map_of kw2"
  proof
    assume "\<forall>n \<in> set ?S. argument kw1 n = argument kw2 n"
    then show "map_of kw1 = map_of kw2" using k1 k2 by (intro map_of_eq_on_keys) auto
  next
    assume "map_of kw1 = map_of kw2"
    then show "\<forall>n \<in> set ?S. argument kw1 n = argument kw2 n" by (simp add: argument_def)
  qed
  with keys have e: "ABCParameter_eq a b \<longleftrightarrow> map_of kw1 = map_of kw2"
    by (simp add: ABCParameter_eq_def)
  then show "(ABCParameter_eq a b \<longleftrightarrow> map_of kw1 = map_of kw2)
       \<and> (map_of kw1 = map_of kw2 \<longrightarrow> ABCParameter_hash h a = ABCParameter_hash h b)"
    by (auto simp: ABCParameter_eq_def ABCParameter_hash_def)
qed

lemma generate_parameters_TEBD_example:
  "generate_parameters [] (Member TEBD)
     [(''svd_relative_tolerance'', PFloat (Finite (1 / 1000))), (''max_bond_dimension'', PInt 20)]
   = Inr \<lparr>obj_class = TEBDParameters_cls,
          obj_slots = [(''max_bond_dimension'', PInt 20),
                       (''svd_relative_tolerance'', PFloat (Finite (1 / 1000)))]\<rparr>"
  "generate_parameters [] (Member TEBD)
     [(''max_bond_dimension'', PInt 20), (''svd_relative_tolerance'', PFloat (Finite (1 / 1000)))]
   = Inr \<lparr>obj_class = TEBDParameters_cls,
          obj_slots = [(''max_bond_dimension'', PInt 20),
                       (''svd_relative_tolerance'', PFloat (Finite (1 / 1000)))]\<rparr>"
  "generate_parameters [] (Member TEBD)
     [(''max_bond_dimension'', PInt 21), (''svd_relative_tolerance'', PFloat (Finite (1 / 1000)))]
   = Inr \<lparr>obj_class = TEBDParameters_cls,
          obj_slots = [(''max_bond_dimension'', PInt 21),
                       (''svd_relative_tolerance'', PFloat (Finite (1 / 1000)))]\<rparr>"
  by (simp_all add: generate_parameters_Member TEBDParameters_call insert_commute)

theorem parameter_records_value_semantics_witness:
  "ABCParameter_eq
     \<lparr>obj_class = TEBDParameters_cls,
      obj_slots = [(''max_bond_dimension'', PInt 20),
                   (''svd_relative_tolerance'', PFloat (Finite (1 / 1000)))]\<rparr>
     \<lparr>obj_class = TEBDParameters_cls,
      obj_slots = [(''max_bond_dimension'', PInt 20),
                   (''svd_relative_tolerance'', PFloat (Finite (1 / 1000)))]\<rparr>
   \<and> \<not> ABCParameter_eq
     \<lparr>obj_class = TEBDParameters_cls,
      obj_slots = [(''max_bond_dimension'', PInt 20),
                   (''svd_relative_tolerance'', PFloat (Finite (1 / 1000)))]\<rparr>
     \<lparr>obj_class = TEBDParameters_cls,
      obj_slots = [(''max_bond_dimension'', PInt 21),
                   (''svd_relative_tolerance'', PFloat (Finite (1 / 1000)))]\<rparr>"
proof -
  let ?kwa = "[(''svd_relative_tolerance'', PFloat (Finite (1 / 1000))),
               (''max_bond_dimension'', PInt 20)]"
  let ?kwb = "[(''max_bond_dimension'', PInt 20),
               (''svd_relative_tolerance'', PFloat (Finite (1 / 1000)))]"
  let ?kwc = "[(''max_bond_dimension'', PInt 21),
               (''svd_relative_tolerance'', PFloat (Finite (1 / 1000)))]"
  have same: "map_of ?kwa = map_of ?kwb" by (rule ext) simp
  have "map_of ?kwb ''max_bond_dimension'' \<noteq> map_of ?kwc ''max_bond_dimension''" by simp
  then have diff: "map_of ?kwb \<noteq> map_of ?kwc" by metis
  show ?thesis
    using parameter_records_value_semantics [of "[]" "Member TEBD" ?kwa _ ?kwb _ "\<lambda>k. 0"]
      parameter_records_value_semantics [of "[]" "Member TEBD" ?kwb _ ?kwc _ "\<lambda>k. 0"]
      generate_parameters_TEBD_example same diff
    by blast
qed




section \<open>The composite\<close>

text \<open>
  C10 (as amended). \<^verbatim>\<open>HIParamsWTensors\<close> adds the one slot \<^verbatim>\<open>TensP\<close> to the base fields.
  With a base payload that passes its checks, construction succeeds for a parameter
  record and is refused, as a type mismatch, for any other value of \<^verbatim>\<open>TensP\<close>. Two
  composites are equal exactly when their base fields are equal and their \<^verbatim>\<open>TensP\<close> are
  equal. A composite has no hash: \<^verbatim>\<open>hash\<close> raises \<^verbatim>\<open>TypeError\<close> for every instance.
\<close>

theorem HIParamsWTensors_composite:
  "HIParamsWTensors_slots = [''TensP'']
   \<and> (base_check base = None \<longrightarrow>
        HIParamsWTensors_init base_check base (Object p)
          = Inr \<lparr>HIParams_fields = base, TensP = p\<rparr>
        \<and> HIParamsWTensors_init base_check base (Value v)
          = Inl (BeartypeCallHintParamViolation ''TensP'')
        \<and> is_type_mismatch (BeartypeCallHintParamViolation ''TensP''))
   \<and> (HIParamsWTensors_eq base_eq x y \<longleftrightarrow>
        base_eq (HIParams_fields x) (HIParams_fields y) \<and> ABCParameter_eq (TensP x) (TensP y))
   \<and> HIParamsWTensors_hash inherited_hash fields_hash x = Inl (TypeError Unhashable)"
  by (simp add: HIParamsWTensors_slots_def HIParamsWTensors_init_def HIParamsWTensors_eq_def
      HIParamsWTensors_hash_def)

theorem HIParamsWTensors_composite_witness:
  "HIParamsWTensors_init (\<lambda>b. None) (3::int)
     (Object \<lparr>obj_class = TEBDParameters_cls,
              obj_slots = [(''max_bond_dimension'', PInt 20),
                           (''svd_relative_tolerance'', PFloat (Finite (1 / 1000)))]\<rparr>)
   = Inr \<lparr>HIParams_fields = 3,
          TensP = \<lparr>obj_class = TEBDParameters_cls,
                   obj_slots = [(''max_bond_dimension'', PInt 20),
                                (''svd_relative_tolerance'', PFloat (Finite (1 / 1000)))]\<rparr>\<rparr>
   \<and> HIParamsWTensors_init (\<lambda>b. None) (3::int) (Value (PInt 5))
     = Inl (BeartypeCallHintParamViolation ''TensP'')"
  using HIParamsWTensors_composite [where base_check = "\<lambda>b. None" and base = "3::int"
     and p = "\<lparr>obj_class = TEBDParameters_cls,
              obj_slots = [(''max_bond_dimension'', PInt 20),
                           (''svd_relative_tolerance'', PFloat (Finite (1 / 1000)))]\<rparr>"
     and v = "PInt 5", THEN conjunct2, THEN conjunct1]
  by simp

text \<open>The hash of a composite that holds a valid TEBD record.\<close>

theorem HIParamsWTensors_unhashable_counterexample:
  "HIParamsWTensors_hash (\<lambda>x. 0) (\<lambda>x. 0)
     \<lparr>HIParams_fields = (),
      TensP = \<lparr>obj_class = TEBDParameters_cls,
               obj_slots = [(''max_bond_dimension'', PInt 20),
                            (''svd_relative_tolerance'', PFloat (Finite (1 / 1000)))]\<rparr>\<rparr>
   = Inl (TypeError Unhashable)"
  by (simp add: HIParamsWTensors_hash_def)

section \<open>The module does not compile\<close>

lemma import_operators_fails: "import_operators = Inl (SyntaxError 8)"
  by (simp add: import_operators_def operators_headers_def)

section \<open>Creation and annihilation operators\<close>

lemma array_fits_iff:
  fixes d :: int
  assumes "0 \<le> d"
  shows "8 * d * d \<le> 2 ^ 63 - 1 \<longleftrightarrow> d < 2 ^ 30"
proof
  assume f: "8 * d * d \<le> 2 ^ 63 - 1"
  show "d < 2 ^ 30"
  proof (rule ccontr)
    assume "\<not> d < 2 ^ 30"
    then have "2 ^ 30 \<le> d" by simp
    then have "2 ^ 30 * 2 ^ 30 \<le> d * d" by (intro mult_mono) simp_all
    with f show False by simp
  qed
next
  assume "d < 2 ^ 30"
  then have "d \<le> 2 ^ 30 - 1" by simp
  with assms have "d * d \<le> (2 ^ 30 - 1) * (2 ^ 30 - 1)" by (intro mult_mono) simp_all
  then show "8 * d * d \<le> 2 ^ 63 - 1" by simp
qed

lemma np_zeros_upto:
  assumes "0 \<le> d" "8 * d * d \<le> 2 ^ 63 - 1"
  shows "np_zeros d = Inr (creation_upto (nat d) 0)"
    and "np_zeros d = Inr (annihilation_upto (nat d) 0)"
  using assms
  by (auto simp: np_zeros_def creation_upto_def annihilation_upto_def intro!: nth_equalityI)

lemma setitem_creation:
  assumes "k + 1 < n"
  shows "setitem (creation_upto n k) k (k + 1) (sqrt (real (k + 1))) = Inr (creation_upto n (k + 1))"
proof -
  have "(creation_upto n k)[k := (creation_upto n k ! k)[k + 1 := sqrt (real (k + 1))]]
        = creation_upto n (k + 1)"
  proof (rule nth_equalityI)
    show "length ((creation_upto n k)[k := (creation_upto n k ! k)[k + 1 := sqrt (real (k + 1))]])
        = length (creation_upto n (k + 1))"
      by (simp add: creation_upto_def)
  next
    fix i
    assume "i < length ((creation_upto n k)[k := (creation_upto n k ! k)[k + 1 := sqrt (real (k + 1))]])"
    then have i: "i < n" by (simp add: creation_upto_def)
    show "(creation_upto n k)[k := (creation_upto n k ! k)[k + 1 := sqrt (real (k + 1))]] ! i
        = creation_upto n (k + 1) ! i"
      using i assms
      by (auto simp: creation_upto_def nth_list_update intro!: nth_equalityI)
  qed
  then show ?thesis using assms by (simp add: setitem_def creation_upto_def)
qed

lemma setitem_annihilation:
  assumes "k + 1 < n"
  shows "setitem (annihilation_upto n k) (k + 1) k (sqrt (real (k + 1)))
         = Inr (annihilation_upto n (k + 1))"
proof -
  have "(annihilation_upto n k)[k + 1 := (annihilation_upto n k ! (k + 1))[k := sqrt (real (k + 1))]]
        = annihilation_upto n (k + 1)"
  proof (rule nth_equalityI)
    show "length ((annihilation_upto n k)[k + 1 := (annihilation_upto n k ! (k + 1))[k := sqrt (real (k + 1))]])
        = length (annihilation_upto n (k + 1))"
      by (simp add: annihilation_upto_def)
  next
    fix i
    assume "i < length ((annihilation_upto n k)[k + 1 := (annihilation_upto n k ! (k + 1))[k := sqrt (real (k + 1))]])"
    then have i: "i < n" by (simp add: annihilation_upto_def)
    show "(annihilation_upto n k)[k + 1 := (annihilation_upto n k ! (k + 1))[k := sqrt (real (k + 1))]] ! i
        = annihilation_upto n (k + 1) ! i"
      using i assms
      by (auto simp: annihilation_upto_def nth_list_update intro!: nth_equalityI)
  qed
  then show ?thesis using assms by (simp add: setitem_def annihilation_upto_def)
qed

lemma creation_annihilation_loop_upto:
  "m < n \<Longrightarrow> k \<le> m \<Longrightarrow>
   creation_annihilation_loop [k..<m] (creation_upto n k, annihilation_upto n k)
   = Inr (creation_upto n m, annihilation_upto n m)"
proof (induction "m - k" arbitrary: k)
  case 0
  then show ?case by simp
next
  case (Suc d)
  then have k: "k < m" "k + 1 < n" by auto
  have "[k..<m] = k # [Suc k..<m]" using k by (simp add: upt_conv_Cons)
  moreover have "creation_annihilation_loop [Suc k..<m]
      (creation_upto n (Suc k), annihilation_upto n (Suc k))
      = Inr (creation_upto n m, annihilation_upto n m)"
    using Suc k by (intro Suc.hyps) auto
  ultimately show ?case
    using setitem_creation [OF k(2)] setitem_annihilation [OF k(2)] by simp
qed

lemma creation_annihilation_operator_body_eq:
  assumes "1 \<le> d" "8 * d * d \<le> 2 ^ 63 - 1"
  shows "creation_annihilation_operator_body d
         = Inr (creation_upto (nat d) (nat d - 1), annihilation_upto (nat d) (nat d - 1))"
proof -
  have r: "py_range (d - 1) = [0..<nat d - 1]"
    using assms by (simp add: py_range_def nat_diff_distrib)
  have "creation_annihilation_loop [0..<nat d - 1]
      (creation_upto (nat d) 0, annihilation_upto (nat d) 0)
     = Inr (creation_upto (nat d) (nat d - 1), annihilation_upto (nat d) (nat d - 1))"
    using assms by (intro creation_annihilation_loop_upto) auto
  moreover have "0 \<le> d" using assms by simp
  ultimately show ?thesis
    using assms(2) np_zeros_upto [of d] by (simp add: creation_annihilation_operator_body_def r)
qed

lemma transpose_creation_upto: "transpose (creation_upto n k) = annihilation_upto n k"
proof -
  have "transpose (creation_upto n k)
        = map (\<lambda>i. map (\<lambda>j. creation_upto n k ! j ! i) [0..<length (creation_upto n k)]) [0..<n]"
    by (rule transpose_rectangle) (auto simp: creation_upto_def)
  also have "\<dots> = annihilation_upto n k"
    by (auto simp: creation_upto_def annihilation_upto_def)
  finally show ?thesis .
qed

lemma transpose_annihilation_upto: "transpose (annihilation_upto n k) = creation_upto n k"
proof -
  have "transpose (annihilation_upto n k)
        = map (\<lambda>i. map (\<lambda>j. annihilation_upto n k ! j ! i) [0..<length (annihilation_upto n k)]) [0..<n]"
    by (rule transpose_rectangle) (auto simp: annihilation_upto_def)
  also have "\<dots> = creation_upto n k"
    by (auto simp: creation_upto_def annihilation_upto_def)
  finally show ?thesis .
qed

text \<open>
  What the body computes, were it reached. For a dimension \<open>d\<close> from 1 to \<open>2 ^ 30 - 1\<close>
  it returns two \<open>d\<close> by \<open>d\<close> matrices that are the transposes of one another; the entry
  of the creation matrix at \<open>(i, j)\<close> is \<open>sqrt (i + 1)\<close> when \<open>j = i + 1\<close> and zero
  otherwise, and the entry of the annihilation matrix at \<open>(i, j)\<close> is \<open>sqrt (j + 1)\<close> when
  \<open>i = j + 1\<close> and zero otherwise; for \<open>d = 1\<close> both are the 1 by 1 zero matrix. From
  \<open>d = 2 ^ 30\<close> on, \<^verbatim>\<open>np.zeros\<close> refuses the array.
\<close>

lemma creation_annihilation_operator_body_correct:
  "1 \<le> d \<Longrightarrow> 8 * d * d \<le> 2 ^ 63 - 1 \<Longrightarrow>
   \<exists>c a. creation_annihilation_operator_body d = Inr (c, a)
     \<and> length c = nat d \<and> length a = nat d
     \<and> (\<forall>i < nat d. length (c ! i) = nat d \<and> length (a ! i) = nat d)
     \<and> a = transpose c \<and> c = transpose a
     \<and> (\<forall>i < nat d. \<forall>j < nat d.
           c ! i ! j = (if j = i + 1 then sqrt (real (i + 1)) else 0))
     \<and> (\<forall>i < nat d. \<forall>j < nat d.
           a ! i ! j = (if i = j + 1 then sqrt (real (j + 1)) else 0))
     \<and> (d = 1 \<longrightarrow> c = [[0]] \<and> a = [[0]])"
proof -
  assume d: "1 \<le> d" and f: "8 * d * d \<le> 2 ^ 63 - 1"
  let ?n = "nat d"
  let ?c = "creation_upto ?n (?n - 1)"
  let ?a = "annihilation_upto ?n (?n - 1)"
  have r: "creation_annihilation_operator_body d = Inr (?c, ?a)"
    using d f by (rule creation_annihilation_operator_body_eq)
  have len: "length ?c = ?n" "length ?a = ?n"
    by (simp_all add: creation_upto_def annihilation_upto_def)
  have rows: "\<forall>i < ?n. length (?c ! i) = ?n \<and> length (?a ! i) = ?n"
    by (simp add: creation_upto_def annihilation_upto_def)
  have tr: "?a = transpose ?c" "?c = transpose ?a"
    by (simp_all add: transpose_creation_upto transpose_annihilation_upto)
  have ce: "\<forall>i < ?n. \<forall>j < ?n. ?c ! i ! j = (if j = i + 1 then sqrt (real (i + 1)) else 0)"
    by (auto simp: creation_upto_def)
  have ae: "\<forall>i < ?n. \<forall>j < ?n. ?a ! i ! j = (if i = j + 1 then sqrt (real (j + 1)) else 0)"
    by (auto simp: annihilation_upto_def)
  have one: "d = 1 \<longrightarrow> ?c = [[0]] \<and> ?a = [[0]]"
    by (simp add: creation_upto_def annihilation_upto_def)
  from r len rows tr ce ae one show ?thesis by blast
qed

lemma creation_annihilation_operator_body_too_big:
  "creation_annihilation_operator_body (2 ^ 30) = Inl (ValueError ''array is too big'')"
  by (simp add: creation_annihilation_operator_body_def np_zeros_def)

text \<open>
  C5. For every dimension \<open>\<ge> 1\<close> the call is to return the two matrices described above.
  The module that holds the function does not compile: the header of the function, at
  line 8, lacks its colon, so that for every dimension the call fails at the import with
  \<^verbatim>\<open>SyntaxError\<close> and no matrix is returned.
\<close>

theorem creation_annihilation_operator_does_not_compile:
  "compile_headers operators_headers = Some (SyntaxError 8)
   \<and> creation_annihilation_operator d = Inl (SyntaxError 8)"
  by (simp add: creation_annihilation_operator_def import_operators_def operators_headers_def)

text \<open>
  C6 (as amended). With the header of line 8 closed by its colon, so that the body is
  reached: for a negative dimension the call fails with the \<^verbatim>\<open>ValueError\<close> of \<^verbatim>\<open>np.zeros\<close>
  (invalid argument); for the dimension 0 it does not fail and returns two empty matrices.
  The body has no test of its own on the dimension.
\<close>

theorem creation_annihilation_operator_nonpositive:
  "(d < 0 \<longrightarrow> creation_annihilation_operator_body d
              = Inl (ValueError ''negative dimensions are not allowed'')
            \<and> is_invalid_argument (ValueError ''negative dimensions are not allowed''))
   \<and> (d = 0 \<longrightarrow> creation_annihilation_operator_body d = Inr ([], []))"
  by (simp add: creation_annihilation_operator_body_def np_zeros_def py_range_def)

theorem creation_annihilation_operator_nonpositive_witness:
  "creation_annihilation_operator_body (- 3)
     = Inl (ValueError ''negative dimensions are not allowed'')
   \<and> creation_annihilation_operator_body 0 = Inr ([], [])"
  using creation_annihilation_operator_nonpositive [of "- 3"]
    creation_annihilation_operator_nonpositive [of 0]
  by simp

text \<open>
  At the dimension 0 the call does not fail with an invalid-argument condition: as the
  source is, it fails at the import with \<^verbatim>\<open>SyntaxError\<close>; and the body, as it is written,
  returns two empty matrices there.
\<close>

theorem creation_annihilation_operator_zero_counterexample:
  "creation_annihilation_operator 0 = Inl (SyntaxError 8)
   \<and> \<not> is_invalid_argument (SyntaxError 8)
   \<and> creation_annihilation_operator_body 0 = Inr ([], [])"
  by (simp add: creation_annihilation_operator_def import_operators_def operators_headers_def
      creation_annihilation_operator_body_def np_zeros_def py_range_def)

section \<open>Pauli operators\<close>

lemma identity_matrix_2: "identity_matrix 2 = [[1, 0], [0, 1]]"
  by (simp add: identity_matrix_def upt_rec numeral_2_eq_2)

text \<open>
  What the body computes, were it reached: three 2 by 2 complex matrices; the square of
  each of them is the identity, and \<open>\<sigma>\<^sub>x \<sigma>\<^sub>y = \<i> \<sigma>\<^sub>z\<close>.
\<close>

lemma pauli_operators_body_algebra:
  "(case pauli_operators_body of (sigma_x, sigma_y, sigma_z) \<Rightarrow>
      map length [sigma_x, sigma_y, sigma_z] = [2, 2, 2]
      \<and> concat (map (map length) [sigma_x, sigma_y, sigma_z]) = [2, 2, 2, 2, 2, 2]
      \<and> matmul sigma_x sigma_x = identity_matrix 2
      \<and> matmul sigma_y sigma_y = identity_matrix 2
      \<and> matmul sigma_z sigma_z = identity_matrix 2
      \<and> matmul sigma_x sigma_y = scale \<i> sigma_z)"
  by (simp add: pauli_operators_body_def matmul_def identity_matrix_2 scale_def)

text \<open>
  C7. \<^verbatim>\<open>pauli_operators()\<close> is to succeed always and to return the three Pauli matrices.
  It lives in the module that does not compile (line 8), so that the call fails at the
  import with \<^verbatim>\<open>SyntaxError\<close> and returns nothing.
\<close>

theorem pauli_operators_does_not_compile:
  "pauli_operators = Inl (SyntaxError 8)"
  by (simp add: pauli_operators_def import_operators_def operators_headers_def)

end
